theory Spec2Isabelle
  imports Main "HOL-Library.Sublist"
begin

section \<open>Errors\<close>

text \<open>
  A Go \<open>error\<close> value. \<open>Err m\<close> is an error with message \<open>m\<close> and no wrapped cause
  (what \<open>fmt.Errorf\<close> builds when the cause is formatted with \<open>%v\<close>);
  \<open>Wrap m e\<close> is an error with message \<open>m\<close> that wraps the cause \<open>e\<close>
  (what \<open>fmt.Errorf\<close> builds with \<open>%w\<close>). A function that returns \<open>error\<close> returns
  \<open>error option\<close> here, \<open>None\<close> being \<open>nil\<close>.
\<close>

datatype error = Err string | Wrap string error

fun message :: "error \<Rightarrow> string" where
  "message (Err m) = m"
| "message (Wrap m e) = m"

text \<open>\<open>fmt.Errorf("failed to load config file %s, error %v", configFilePath, err)\<close>\<close>

definition loadError :: "string \<Rightarrow> error \<Rightarrow> error" where
  "loadError configFilePath err =
     Err (''failed to load config file '' @ configFilePath @ '', error '' @ message err)"

text \<open>\<open>fmt.Errorf("failed to re-parse flags: %w", err)\<close>\<close>

definition reparseError :: "error \<Rightarrow> error" where
  "reparseError err = Wrap (''failed to re-parse flags: '' @ message err) err"

section \<open>State\<close>

text \<open>
  The calls the code makes to its collaborators, in the order it makes them. The log is
  what the temporal properties are stated on.
\<close>

datatype call =
    CallFn
  | CallAbs
  | CallNewConfigurationFSLoader
  | CallNew
  | CallLoad
  | CallDeepCopyInto
  | CallFind
  | CallParseFlags
  | CallRun
  | CallNewControllerFlags
  | CallNewControllerConfiguration
  | CallLogError error string
  | CallAddFlags
  | CallAddConfigFlags
  | CallSetArgs

text \<open>
  What the startup code reads and writes: the live configuration object that \<open>cfg\<close> and
  \<open>controllerConfig\<close> point to (type \<open>'c\<close>), the process-wide state that the validation
  callback activates (logging, feature gates; type \<open>'g\<close>), and the log of calls.
\<close>

record ('c, 'g) state =
  controllerConfig :: 'c
  process :: 'g
  calls :: "call list"

definition logCalls :: "call list \<Rightarrow> ('c, 'g) state \<Rightarrow> ('c, 'g) state" where
  "logCalls cs s = s\<lparr>calls := calls s @ cs\<rparr>"

text \<open>The calls made between state \<open>s\<close> and a later state \<open>s'\<close>.\<close>

definition newCalls :: "('c, 'g) state \<Rightarrow> ('c, 'g) state \<Rightarrow> call list" where
  "newCalls s s' = drop (length (calls s)) (calls s')"

section \<open>Collaborators\<close>

text \<open>
  The functions of other packages that \<open>loadConfigFromFile\<close> calls, as parameters:
  \<open>filepath.Abs\<close>, \<open>configfile.NewConfigurationFSLoader\<close> (its first argument is always
  \<open>nil\<close>), \<open>controllerconfigfile.New\<close> (a fresh, defaulted configuration; the model keeps
  its \<open>Config\<close> field only) and the loader's \<open>Load\<close>, which decodes the file into the
  object it is given. Each is a function of its arguments: the working directory and
  the files do not change during a run.
\<close>

record ('c, 'ld) packages =
  Abs :: "string \<Rightarrow> error + string"
  NewConfigurationFSLoader :: "string \<Rightarrow> error + 'ld"
  New :: "'c"
  Load :: "'ld \<Rightarrow> 'c \<Rightarrow> error + 'c"

text \<open>
  The two methods of the \<open>*cobra.Command\<close> that \<open>loadConfigFromFile\<close> calls.
  \<open>Find\<close> is \<open>cmd.Root().Find\<close>, of which the code keeps the remaining arguments and
  the error. \<open>ParseFlags\<close> writes through the flags' pointers into the live configuration;
  when it fails, the flags it has set so far stay set, so it returns the configuration
  in both cases. What the flag set records of the flags it has seen is not part of the
  model.
\<close>

record 'c Command =
  Find :: "string list \<Rightarrow> error + string list"
  ParseFlags :: "string list \<Rightarrow> 'c \<Rightarrow> error option \<times> 'c"

text \<open>
  Modelled from the spec: \<open>DeepCopyInto\<close> is generated code of package
  \<open>internal/apis/config/controller\<close>, which is not among the source files. The spec:
  "Deep-copy the file-derived object over the live ConfigurationObject, field by field,
  fully replacing it". The first argument is the receiver, the second the object
  written to; the result is the object written.
\<close>

definition DeepCopyInto :: "'c \<Rightarrow> 'c \<Rightarrow> 'c" where
  "DeepCopyInto from out = from"

section \<open>loadConfigFromFile\<close>

text \<open>
  A call of the validation callback \<open>fn\<close>. The callback is a closure over the live
  configuration: it reads the configuration and acts on the process-wide state (the
  spec: it "validates the currently resolved configuration and activates global
  facilities from it"). When it fails, what it has activated so far stays.
\<close>

definition callFn ::
  "('c \<Rightarrow> 'g \<Rightarrow> error option \<times> 'g) \<Rightarrow> ('c, 'g) state \<Rightarrow> error option \<times> ('c, 'g) state" where
  "callFn fn s =
     (case fn (controllerConfig s) (process s) of
        (r, g) \<Rightarrow> (r, s\<lparr>process := g, calls := calls s @ [CallFn]\<rparr>))"

text \<open>
  Lines 132 to 147: resolve the path, build the loader, load the file into a fresh
  object and copy that object over the live one.
\<close>

definition loadFile ::
  "('c, 'ld) packages \<Rightarrow> string \<Rightarrow> ('c, 'g) state \<Rightarrow> error option \<times> ('c, 'g) state" where
  "loadFile pk configFilePath s =
     (case Abs pk configFilePath of
        Inl err \<Rightarrow> (Some (loadError configFilePath err), logCalls [CallAbs] s)
      | Inr controllerConfigFile \<Rightarrow>
          (case NewConfigurationFSLoader pk controllerConfigFile of
             Inl err \<Rightarrow>
               (Some (loadError configFilePath err),
                logCalls [CallAbs, CallNewConfigurationFSLoader] s)
           | Inr loader \<Rightarrow>
               (case Load pk loader (New pk) of
                  Inl err \<Rightarrow>
                    (Some (loadError configFilePath err),
                     logCalls [CallAbs, CallNewConfigurationFSLoader, CallNew, CallLoad] s)
                | Inr controllerConfigFromFile \<Rightarrow>
                    (None,
                     logCalls
                       [CallAbs, CallNewConfigurationFSLoader, CallNew, CallLoad,
                        CallDeepCopyInto]
                       (s\<lparr>controllerConfig :=
                            DeepCopyInto controllerConfigFromFile (controllerConfig s)\<rparr>)))))"

text \<open>
  Lines 149 to 160: find the arguments of the command among \<open>allArgs\<close>, parse the flags
  again and call the validation callback a second time.
\<close>

definition reparseFlags ::
  "'c Command \<Rightarrow> string list \<Rightarrow> ('c \<Rightarrow> 'g \<Rightarrow> error option \<times> 'g) \<Rightarrow> ('c, 'g) state
     \<Rightarrow> error option \<times> ('c, 'g) state" where
  "reparseFlags cmd allArgs fn s =
     (case Find cmd allArgs of
        Inl err \<Rightarrow> (Some (reparseError err), logCalls [CallFind] s)
      | Inr args \<Rightarrow>
          (case ParseFlags cmd args (controllerConfig s) of
             (Some err, c) \<Rightarrow>
               (Some (reparseError err),
                logCalls [CallFind, CallParseFlags] (s\<lparr>controllerConfig := c\<rparr>))
           | (None, c) \<Rightarrow>
               callFn fn (logCalls [CallFind, CallParseFlags] (s\<lparr>controllerConfig := c\<rparr>))))"

text \<open>
  The whole function. The argument \<open>cfg\<close> of the source is the pointer to the live
  configuration, the field \<open>controllerConfig\<close> of the state.
\<close>

definition loadConfigFromFile ::
  "('c, 'ld) packages \<Rightarrow> 'c Command \<Rightarrow> string list \<Rightarrow> string
     \<Rightarrow> ('c \<Rightarrow> 'g \<Rightarrow> error option \<times> 'g) \<Rightarrow> ('c, 'g) state
     \<Rightarrow> error option \<times> ('c, 'g) state" where
  "loadConfigFromFile pk cmd allArgs configFilePath fn s =
     (case callFn fn s of
        (Some err, s1) \<Rightarrow> (Some err, s1)
      | (None, s1) \<Rightarrow>
          if length configFilePath > 0 then
            (case loadFile pk configFilePath s1 of
               (Some err, s2) \<Rightarrow> (Some err, s2)
             | (None, s2) \<Rightarrow> reparseFlags cmd allArgs fn s2)
          else (None, s1))"

section \<open>The command\<close>

text \<open>
  The fields of \<open>ControllerConfiguration\<close> that the source file names. The struct is
  declared in another package; its other fields are the record's extension.
\<close>

record ('l, 'm) ControllerConfiguration =
  Logging :: 'l
  FeatureGates :: 'm

text \<open>
  \<open>logf.ValidateAndApply\<close> and \<open>utilfeature.DefaultMutableFeatureGate.SetFromMap\<close>, as
  parameters: each reads what it is given and acts on the process-wide state.
\<close>

record ('l, 'm, 'g) activation =
  ValidateAndApply :: "'l \<Rightarrow> 'g \<Rightarrow> error option \<times> 'g"
  SetFromMap :: "'m \<Rightarrow> 'g \<Rightarrow> error option \<times> 'g"

text \<open>
  The function literal of lines 89 to 100, the validation callback of the command;
  \<open>cfg\<close> is the live configuration \<open>controllerConfig\<close> that it captures.
\<close>

definition RunE_fn ::
  "('l, 'm, 'g) activation \<Rightarrow> ('l, 'm, 'z) ControllerConfiguration_scheme \<Rightarrow> 'g
     \<Rightarrow> error option \<times> 'g" where
  "RunE_fn act cfg g =
     (case ValidateAndApply act (Logging cfg) g of
        (Some err, g1) \<Rightarrow>
          (Some (Wrap (''failed to validate controller logging flags: '' @ message err) err), g1)
      | (None, g1) \<Rightarrow>
          (case SetFromMap act (FeatureGates cfg) g1 of
             (Some err, g2) \<Rightarrow>
               (Some (Wrap (''failed to set feature gates from initial flags-based config: ''
                              @ message err) err), g2)
           | (None, g2) \<Rightarrow> (None, g2)))"

text \<open>
  The \<open>RunE\<close> of the command, lines 86 to 106. \<open>Config\<close> is \<open>controllerFlags.Config\<close>,
  read when the action starts. The run loop \<open>run\<close> is a parameter; it may not return,
  which is the value \<open>None\<close>, and then neither does the action.
\<close>

definition RunE ::
  "(('l, 'm, 'z) ControllerConfiguration_scheme, 'ld) packages
     \<Rightarrow> ('l, 'm, 'g) activation
     \<Rightarrow> (('l, 'm, 'z) ControllerConfiguration_scheme \<Rightarrow> 'g \<Rightarrow> (error option \<times> 'g) option)
     \<Rightarrow> ('l, 'm, 'z) ControllerConfiguration_scheme Command \<Rightarrow> string list \<Rightarrow> string
     \<Rightarrow> (('l, 'm, 'z) ControllerConfiguration_scheme, 'g) state
     \<Rightarrow> (error option \<times> (('l, 'm, 'z) ControllerConfiguration_scheme, 'g) state) option" where
  "RunE pk act run cmd allArgs Config s =
     (case loadConfigFromFile pk cmd allArgs Config (RunE_fn act) s of
        (Some err, s1) \<Rightarrow> Some (Some err, s1)
      | (None, s1) \<Rightarrow>
          (case run (controllerConfig s1) (process s1) of
             None \<Rightarrow> None
           | Some (r, g) \<Rightarrow> Some (r, s1\<lparr>process := g, calls := calls s1 @ [CallRun]\<rparr>)))"

text \<open>
  How \<open>newServerCommand\<close> ends: the process exits with a status (\<open>os.Exit\<close>), or the
  function returns a value.
\<close>

datatype 'a outcome = Exit int | Return 'a

text \<open>
  The command as \<open>newServerCommand\<close> leaves it: its name, the arguments given to
  \<open>SetArgs\<close> and the configuration object its flags and its action point to.
\<close>

record 'c serverCommand =
  Use :: string
  cmdArgs :: "string list"
  cmdConfig :: 'c

definition componentController :: string where
  "componentController = ''controller''"

text \<open>
  \<open>newServerCommand\<close>, lines 62 to 117, with the result of
  \<open>options.NewControllerConfiguration()\<close> as a parameter. It returns the calls it made
  and how it ended.
\<close>

definition newServerCommand ::
  "error + 'c \<Rightarrow> string list \<Rightarrow> call list \<times> 'c serverCommand outcome" where
  "newServerCommand NewControllerConfiguration allArgs =
     (case NewControllerConfiguration of
        Inl err \<Rightarrow>
          ([CallNewControllerFlags, CallNewControllerConfiguration,
            CallLogError err ''Failed to create new controller configuration''],
           Exit 1)
      | Inr cfg \<Rightarrow>
          ([CallNewControllerFlags, CallNewControllerConfiguration,
            CallAddFlags, CallAddConfigFlags, CallSetArgs],
           Return \<lparr>Use = componentController, cmdArgs = allArgs, cmdConfig = cfg\<rparr>))"

section \<open>Flags bound to fields\<close>

text \<open>
  Modelled from the spec: the flag set of the command (package cobra, not of this
  repository) and \<open>options.AddConfigFlags\<close>, which binds the flags to the fields of the
  configuration (package \<open>controller-binary/app/options\<close>), are not among the source
  files. The spec: a ConfigurationObject supports "field-level binding to command-line
  flags"; a FlagBindingDescriptor is "the association between a field of
  ConfigurationObject and a named command-line flag"; the \<open>--config\<close> flag is "not itself
  part of ConfigurationObject"; the merge will "re-derive the original argument vector's
  flag subset and re-apply flag parsing onto the now-file-overlaid ConfigurationObject",
  which fails "if the argument vector cannot be matched against the command's flag set".

  A configuration is a function from fields to values, a value being the text given
  for it. A flag is bound to a field of the configuration or, as \<open>--config\<close> is,
  to something outside it.
\<close>

datatype 'f binding = ConfigFlag | FieldFlag 'f

text \<open>
  Setting the flags of a flag subset (pairs of a flag's name and the value given for
  it) one after the other, as the argument vector has them. A name that is no flag
  of the command stops the parse; the flags set before it stay set.
\<close>

fun setFlags ::
  "(string \<rightharpoonup> 'f binding) \<Rightarrow> (string \<times> string) list \<Rightarrow> ('f \<Rightarrow> string)
     \<Rightarrow> error option \<times> ('f \<Rightarrow> string)" where
  "setFlags formal [] c = (None, c)"
| "setFlags formal ((name, val) # rest) c =
     (case formal name of
        None \<Rightarrow> (Some (Err (''unknown flag: --'' @ name)), c)
      | Some ConfigFlag \<Rightarrow> setFlags formal rest c
      | Some (FieldFlag f) \<Rightarrow> setFlags formal rest (c(f := val)))"

text \<open>
  The command over such a flag set. How the flag subset is read off an argument
  vector (the grammar of the command line) is the parameter \<open>flagSubset\<close>.
\<close>

definition flagCommand ::
  "(string list \<Rightarrow> error + string list) \<Rightarrow> (string list \<Rightarrow> (string \<times> string) list)
     \<Rightarrow> (string \<rightharpoonup> 'f binding) \<Rightarrow> ('f \<Rightarrow> string) Command" where
  "flagCommand rootFind flagSubset formal =
     \<lparr>Find = rootFind, ParseFlags = (\<lambda>args c. setFlags formal (flagSubset args) c)\<rparr>"

text \<open>
  The value a flag subset supplies for a field, if it supplies one: that of the last
  flag in it that is bound to the field.
\<close>

fun supplied :: "(string \<rightharpoonup> 'f binding) \<Rightarrow> (string \<times> string) list \<Rightarrow> 'f \<Rightarrow> string option" where
  "supplied formal [] f = None"
| "supplied formal ((name, val) # rest) f =
     (case supplied formal rest f of
        Some v \<Rightarrow> Some v
      | None \<Rightarrow> (if formal name = Some (FieldFlag f) then Some val else None))"

section \<open>Example inputs\<close>

text \<open>A grammar for the examples: an argument \<open>--name=value\<close> is a flag, any other is not.\<close>

definition longFlag :: "string \<Rightarrow> (string \<times> string) option" where
  "longFlag a =
     (if take 2 a = ''--'' \<and> CHR ''='' \<in> set a
      then Some (takeWhile (\<lambda>ch. ch \<noteq> CHR ''='') (drop 2 a),
                 drop 1 (dropWhile (\<lambda>ch. ch \<noteq> CHR ''='') (drop 2 a)))
      else None)"

definition longFlags :: "string list \<Rightarrow> (string \<times> string) list" where
  "longFlags argv = List.map_filter longFlag argv"

text \<open>
  A controller with two fields, \<open>leader-elect\<close> and \<open>v\<close>, each with a flag of its name.
  The working directory is \<open>/etc\<close>. Its file \<open>file.yaml\<close> sets \<open>leader-elect\<close> to
  \<open>false\<close> and \<open>v\<close> to \<open>2\<close>, its file \<open>bad.yaml\<close> sets \<open>v\<close> to the empty text;
  no other file exists.
\<close>

definition exFormal :: "string \<rightharpoonup> string binding" where
  "exFormal =
     [''config'' \<mapsto> ConfigFlag, ''leader-elect'' \<mapsto> FieldFlag ''leader-elect'',
      ''v'' \<mapsto> FieldFlag ''v'']"

definition exDefaults :: "string \<Rightarrow> string" where
  "exDefaults = (\<lambda>f. [])(''leader-elect'' := ''true'', ''v'' := ''0'')"

definition exPackages :: "(string \<Rightarrow> string, string) packages" where
  "exPackages =
     \<lparr>Abs = (\<lambda>p. Inr (''/etc/'' @ p)),
      NewConfigurationFSLoader = (\<lambda>p. Inr p),
      New = exDefaults,
      Load = (\<lambda>loader c.
        if loader = ''/etc/file.yaml'' then Inr (c(''leader-elect'' := ''false'', ''v'' := ''2''))
        else if loader = ''/etc/bad.yaml'' then Inr (c(''v'' := []))
        else Inl (Err (''open '' @ loader @ '': no such file or directory'')))\<rparr>"

definition exCommand :: "(string \<Rightarrow> string) Command" where
  "exCommand = flagCommand Inr longFlags exFormal"

text \<open>The same command where it is not to be found under its root.\<close>

definition exLostCommand :: "(string \<Rightarrow> string) Command" where
  "exLostCommand = flagCommand (\<lambda>argv. Inl (Err ''unknown command'')) longFlags exFormal"

text \<open>
  A validation callback: it refuses a verbosity that is empty and makes the verbosity
  of the configuration the process's.
\<close>

definition exFn :: "(string \<Rightarrow> string) \<Rightarrow> string \<Rightarrow> error option \<times> string" where
  "exFn c g = (if c ''v'' = [] then (Some (Err ''invalid verbosity''), g) else (None, c ''v''))"

text \<open>The state after the first parse of \<open>--config=file.yaml --leader-elect=true\<close>.\<close>

definition exArgs :: "string list" where
  "exArgs = [''--config=file.yaml'', ''--leader-elect=true'']"

definition exState :: "(string \<Rightarrow> string, string) state" where
  "exState = \<lparr>controllerConfig = exDefaults(''leader-elect'' := ''true''), process = [], calls = []\<rparr>"

text \<open>The state after the first parse of \<open>--leader-elect=false\<close>, with no file.\<close>

definition exArgsNoFile :: "string list" where
  "exArgsNoFile = [''--leader-elect=false'']"

definition exStateNoFile :: "(string \<Rightarrow> string, string) state" where
  "exStateNoFile =
     \<lparr>controllerConfig = exDefaults(''leader-elect'' := ''false''), process = [], calls = []\<rparr>"

text \<open>
  The state after the first parse of \<open>--config=missing.yaml --v=5\<close>, and argument
  vectors for it that name another file, or a flag the command does not have.
\<close>

definition exArgsMissing :: "string list" where
  "exArgsMissing = [''--config=missing.yaml'', ''--v=5'']"

definition exArgsBad :: "string list" where
  "exArgsBad = [''--config=bad.yaml'', ''--leader-elect=false'']"

definition exArgsUnknown :: "string list" where
  "exArgsUnknown = [''--config=file.yaml'', ''--v=5'', ''--bogus=1'', ''--leader-elect=true'']"

definition exStateV :: "(string \<Rightarrow> string, string) state" where
  "exStateV = \<lparr>controllerConfig = exDefaults(''v'' := ''5''), process = [], calls = []\<rparr>"

text \<open>The state after the first parse of \<open>--config=file.yaml --v=\<close>.\<close>

definition exArgsEmptyV :: "string list" where
  "exArgsEmptyV = [''--config=file.yaml'', ''--v='']"

definition exStateEmptyV :: "(string \<Rightarrow> string, string) state" where
  "exStateEmptyV = \<lparr>controllerConfig = exDefaults(''v'' := []), process = [], calls = []\<rparr>"

text \<open>
  A controller for the command's action: its logging options are a verbosity, the
  process-wide state is the verbosity in force and the feature gates set. The working
  directory is \<open>/etc\<close>; its file \<open>file.yaml\<close> sets the verbosity to \<open>2\<close>, its file
  \<open>bad.yaml\<close> sets it to the empty text, and no other file exists. The command has
  the flags \<open>--config\<close> and \<open>--v\<close>. The run loop returns at once.
\<close>

definition exCtlConfig :: "(string, string \<rightharpoonup> bool) ControllerConfiguration" where
  "exCtlConfig = \<lparr>Logging = ''5'', FeatureGates = Map.empty\<rparr>"

definition exCtlPackages :: "((string, string \<rightharpoonup> bool) ControllerConfiguration, string) packages" where
  "exCtlPackages =
     \<lparr>Abs = (\<lambda>p. Inr (''/etc/'' @ p)),
      NewConfigurationFSLoader = (\<lambda>p. Inr p),
      New = \<lparr>Logging = ''0'', FeatureGates = Map.empty\<rparr>,
      Load = (\<lambda>loader c.
        if loader = ''/etc/file.yaml'' then Inr (c\<lparr>Logging := ''2''\<rparr>)
        else if loader = ''/etc/bad.yaml'' then Inr (c\<lparr>Logging := []\<rparr>)
        else Inl (Err (''open '' @ loader @ '': no such file or directory'')))\<rparr>"

fun exCtlParseFlags ::
  "string list \<Rightarrow> (string, string \<rightharpoonup> bool) ControllerConfiguration
     \<Rightarrow> error option \<times> (string, string \<rightharpoonup> bool) ControllerConfiguration" where
  "exCtlParseFlags [] c = (None, c)"
| "exCtlParseFlags (a # argv) c =
     (if take 4 a = ''--v='' then exCtlParseFlags argv (c\<lparr>Logging := drop 4 a\<rparr>)
      else if take 9 a = ''--config='' then exCtlParseFlags argv c
      else (Some (Err (''unknown flag: '' @ a)), c))"

definition exCtlCommand :: "(string, string \<rightharpoonup> bool) ControllerConfiguration Command" where
  "exCtlCommand = \<lparr>Find = Inr, ParseFlags = exCtlParseFlags\<rparr>"

text \<open>The same command where it is not to be found under its root.\<close>

definition exCtlLostCommand :: "(string, string \<rightharpoonup> bool) ControllerConfiguration Command" where
  "exCtlLostCommand =
     \<lparr>Find = (\<lambda>argv. Inl (Err ''unknown command'')), ParseFlags = exCtlParseFlags\<rparr>"

definition exActivation ::
  "(string, string \<rightharpoonup> bool, string \<times> (string \<rightharpoonup> bool)) activation" where
  "exActivation =
     \<lparr>ValidateAndApply = (\<lambda>l g. if l = [] then (Some (Err ''invalid verbosity''), g)
                                else (None, (l, snd g))),
      SetFromMap = (\<lambda>m g. (None, (fst g, m)))\<rparr>"

definition exRun ::
  "(string, string \<rightharpoonup> bool) ControllerConfiguration \<Rightarrow> string \<times> (string \<rightharpoonup> bool)
     \<Rightarrow> (error option \<times> string \<times> (string \<rightharpoonup> bool)) option" where
  "exRun c g = Some (None, g)"

text \<open>
  The state after the first parse of \<open>--v=5\<close>, that after a first parse with no \<open>--v\<close>
  and that after the first parse of \<open>--v=\<close>.
\<close>

definition exCtlState ::
  "((string, string \<rightharpoonup> bool) ControllerConfiguration, string \<times> (string \<rightharpoonup> bool)) state" where
  "exCtlState = \<lparr>controllerConfig = exCtlConfig, process = ([], Map.empty), calls = []\<rparr>"

definition exCtlStateDefault ::
  "((string, string \<rightharpoonup> bool) ControllerConfiguration, string \<times> (string \<rightharpoonup> bool)) state" where
  "exCtlStateDefault =
     \<lparr>controllerConfig = \<lparr>Logging = ''0'', FeatureGates = Map.empty\<rparr>,
      process = ([], Map.empty), calls = []\<rparr>"

definition exCtlStateEmptyV ::
  "((string, string \<rightharpoonup> bool) ControllerConfiguration, string \<times> (string \<rightharpoonup> bool)) state" where
  "exCtlStateEmptyV =
     \<lparr>controllerConfig = \<lparr>Logging = [], FeatureGates = Map.empty\<rparr>,
      process = ([], Map.empty), calls = []\<rparr>"

section \<open>Facts about the steps\<close>

lemma callFn_eq:
  "callFn fn s =
     (fst (fn (controllerConfig s) (process s)),
      s\<lparr>process := snd (fn (controllerConfig s) (process s)), calls := calls s @ [CallFn]\<rparr>)"
  by (simp add: callFn_def split: prod.splits)

lemma loadFile_success:
  assumes "loadFile pk p s = (None, s')"
  shows "\<exists>a ld fromFile.
           Abs pk p = Inr a \<and> NewConfigurationFSLoader pk a = Inr ld \<and>
           Load pk ld (New pk) = Inr fromFile \<and>
           s' = s\<lparr>controllerConfig := fromFile,
                  calls := calls s @ [CallAbs, CallNewConfigurationFSLoader, CallNew, CallLoad,
                                      CallDeepCopyInto]\<rparr>"
  using assms
  by (auto simp: loadFile_def logCalls_def DeepCopyInto_def split: sum.splits)

lemma reparseFlags_success:
  assumes "reparseFlags cmd allArgs fn s = (None, s')"
  shows "\<exists>args c g.
           Find cmd allArgs = Inr args \<and> ParseFlags cmd args (controllerConfig s) = (None, c) \<and>
           fn c (process s) = (None, g) \<and>
           s' = s\<lparr>controllerConfig := c, process := g,
                  calls := calls s @ [CallFind, CallParseFlags, CallFn]\<rparr>"
  using assms
  by (auto simp: reparseFlags_def logCalls_def callFn_def split: sum.splits prod.splits option.splits)

lemma loadConfigFromFile_success:
  assumes "loadConfigFromFile pk cmd allArgs p fn s = (None, s')" and "p \<noteq> []"
  shows "\<exists>gA a ld fromFile args c gB.
           fn (controllerConfig s) (process s) = (None, gA) \<and>
           Abs pk p = Inr a \<and> NewConfigurationFSLoader pk a = Inr ld \<and>
           Load pk ld (New pk) = Inr fromFile \<and>
           Find cmd allArgs = Inr args \<and> ParseFlags cmd args fromFile = (None, c) \<and>
           fn c gA = (None, gB) \<and>
           s' = s\<lparr>controllerConfig := c, process := gB,
                  calls := calls s @ [CallFn, CallAbs, CallNewConfigurationFSLoader, CallNew,
                                      CallLoad, CallDeepCopyInto, CallFind, CallParseFlags,
                                      CallFn]\<rparr>"
proof -
  define gA where "gA = snd (fn (controllerConfig s) (process s))"
  define s1 where "s1 = s\<lparr>process := gA, calls := calls s @ [CallFn]\<rparr>"
  have a: "callFn fn s = (fst (fn (controllerConfig s) (process s)), s1)"
    by (simp add: callFn_eq s1_def gA_def)
  with assms have r: "fst (fn (controllerConfig s) (process s)) = None"
    by (auto simp: loadConfigFromFile_def split: option.splits)
  then have fnA: "fn (controllerConfig s) (process s) = (None, gA)"
    by (simp add: gA_def prod_eq_iff)
  obtain r2 s2 where l: "loadFile pk p s1 = (r2, s2)" by (cases "loadFile pk p s1")
  with assms a r have r2: "r2 = None" and re: "reparseFlags cmd allArgs fn s2 = (None, s')"
    by (auto simp: loadConfigFromFile_def split: option.splits)
  from loadFile_success[OF l[unfolded r2]] obtain a' ld fromFile where
    lf: "Abs pk p = Inr a'" "NewConfigurationFSLoader pk a' = Inr ld"
        "Load pk ld (New pk) = Inr fromFile"
    and s2: "s2 = s1\<lparr>controllerConfig := fromFile,
                  calls := calls s1 @ [CallAbs, CallNewConfigurationFSLoader, CallNew, CallLoad,
                                      CallDeepCopyInto]\<rparr>"
    by blast
  from reparseFlags_success[OF re] obtain args c gB where
    rp: "Find cmd allArgs = Inr args" "ParseFlags cmd args (controllerConfig s2) = (None, c)"
        "fn c (process s2) = (None, gB)"
    and s': "s' = s2\<lparr>controllerConfig := c, process := gB,
                  calls := calls s2 @ [CallFind, CallParseFlags, CallFn]\<rparr>"
    by blast
  have "s' = s\<lparr>controllerConfig := c, process := gB,
                  calls := calls s @ [CallFn, CallAbs, CallNewConfigurationFSLoader, CallNew,
                                      CallLoad, CallDeepCopyInto, CallFind, CallParseFlags,
                                      CallFn]\<rparr>"
    by (simp add: s' s2 s1_def)
  moreover have "ParseFlags cmd args fromFile = (None, c)" "fn c gA = (None, gB)"
    using rp by (simp_all add: s2 s1_def)
  ultimately show ?thesis using fnA lf rp(1) by blast
qed


lemma setFlags_supplied:
  "setFlags formal S c0 = (None, c) \<Longrightarrow>
     c f = (case supplied formal S f of Some v \<Rightarrow> v | None \<Rightarrow> c0 f)"
proof (induction S arbitrary: c0)
  case Nil
  then show ?case by simp
next
  case (Cons nv rest)
  obtain name val where nv: "nv = (name, val)" by (cases nv)
  show ?case
  proof (cases "formal name")
    case None
    with Cons.prems nv show ?thesis by simp
  next
    case (Some b)
    show ?thesis
    proof (cases b)
      case ConfigFlag
      with Cons Some nv show ?thesis by (simp split: option.splits)
    next
      case (FieldFlag f')
      with Cons.prems Some nv have "setFlags formal rest (c0(f' := val)) = (None, c)" by simp
      from Cons.IH[OF this] Some FieldFlag nv show ?thesis
        by (simp split: option.splits)
    qed
  qed
qed

lemma loadConfigFromFile_calls:
  "\<exists>cs. calls (snd (loadConfigFromFile pk cmd allArgs p fn s)) = calls s @ CallFn # cs \<and>
        CallRun \<notin> set cs \<and>
        takeWhile (\<lambda>c. c \<notin> {CallAbs, CallNewConfigurationFSLoader, CallLoad}) cs = []"
  by (auto simp: loadConfigFromFile_def callFn_def loadFile_def reparseFlags_def logCalls_def
      split: prod.splits option.splits sum.splits)

lemma loadConfigFromFile_no_run:
  "loadConfigFromFile pk cmd allArgs p fn s = (r, s') \<Longrightarrow> CallRun \<notin> set (newCalls s s')"
  using loadConfigFromFile_calls[of pk cmd allArgs p fn s]
  by (auto simp: newCalls_def)

lemma loadConfigFromFile_phaseA_fails:
  "fn (controllerConfig s) (process s) = (Some e, g) \<Longrightarrow>
     loadConfigFromFile pk cmd allArgs p fn s
       = (Some e, s\<lparr>process := g, calls := calls s @ [CallFn]\<rparr>)"
  by (simp add: loadConfigFromFile_def callFn_def)

lemma loadConfigFromFile_file_fails:
  assumes "fn (controllerConfig s) (process s) = (None, gA)" and "p \<noteq> []"
      and "Abs pk p = Inl cause \<or>
           (\<exists>a. Abs pk p = Inr a \<and>
              (NewConfigurationFSLoader pk a = Inl cause \<or>
               (\<exists>ld. NewConfigurationFSLoader pk a = Inr ld \<and> Load pk ld (New pk) = Inl cause)))"
  shows "fst (loadConfigFromFile pk cmd allArgs p fn s) = Some (loadError p cause)"
  using assms
  by (auto simp: loadConfigFromFile_def callFn_def loadFile_def logCalls_def)

lemma loadConfigFromFile_reparse_fails:
  assumes "fn (controllerConfig s) (process s) = (None, gA)" and "p \<noteq> []"
      and "Abs pk p = Inr a" and "NewConfigurationFSLoader pk a = Inr ld"
      and "Load pk ld (New pk) = Inr fromFile"
  shows "Find cmd allArgs = Inl err \<Longrightarrow>
           fst (loadConfigFromFile pk cmd allArgs p fn s) = Some (reparseError err)"
    and "Find cmd allArgs = Inr args \<Longrightarrow> ParseFlags cmd args fromFile = (Some err, c) \<Longrightarrow>
           fst (loadConfigFromFile pk cmd allArgs p fn s) = Some (reparseError err)"
    and "Find cmd allArgs = Inr args \<Longrightarrow> ParseFlags cmd args fromFile = (None, c) \<Longrightarrow>
         fn c gA = (Some err, gB) \<Longrightarrow>
           fst (loadConfigFromFile pk cmd allArgs p fn s) = Some err"
  using assms
  by (auto simp: loadConfigFromFile_def callFn_def loadFile_def reparseFlags_def logCalls_def
      DeepCopyInto_def)

lemma RunE_stops:
  assumes "fst (loadConfigFromFile pk cmd allArgs Config (RunE_fn act) s) = Some e"
  shows "RunE pk act run cmd allArgs Config s
           = Some (loadConfigFromFile pk cmd allArgs Config (RunE_fn act) s) \<and>
         CallRun \<notin> set (newCalls s (snd (loadConfigFromFile pk cmd allArgs Config (RunE_fn act) s)))"
proof -
  obtain s' where L: "loadConfigFromFile pk cmd allArgs Config (RunE_fn act) s = (Some e, s')"
    using assms by (cases "loadConfigFromFile pk cmd allArgs Config (RunE_fn act) s") simp
  with loadConfigFromFile_no_run[OF L] show ?thesis by (simp add: RunE_def)
qed

lemmas ex_defs =
  loadConfigFromFile_def callFn_def loadFile_def reparseFlags_def logCalls_def newCalls_def
  DeepCopyInto_def flagCommand_def longFlags_def longFlag_def
  exPackages_def exCommand_def exLostCommand_def exFn_def exDefaults_def exFormal_def
  exArgs_def exState_def exArgsNoFile_def exStateNoFile_def exArgsMissing_def exArgsBad_def
  exArgsUnknown_def exStateV_def exArgsEmptyV_def exStateEmptyV_def

lemmas ctl_defs =
  RunE_def RunE_fn_def loadConfigFromFile_def callFn_def loadFile_def reparseFlags_def
  logCalls_def newCalls_def DeepCopyInto_def loadError_def
  exCtlConfig_def exCtlPackages_def exCtlCommand_def exCtlLostCommand_def exActivation_def
  exRun_def exCtlState_def exCtlStateDefault_def exCtlStateEmptyV_def exArgsMissing_def

section \<open>Precedence of flags, file and defaults\<close>

text \<open>
  C1. Flags win over the file. Take a run of \<open>loadConfigFromFile\<close> with a configuration
  file that returns success, over a command whose flags are bound to fields. If the flag
  subset of the argument vector supplies the value \<open>v\<close> for the field \<open>f\<close>, the resolved
  configuration has \<open>v\<close> at \<open>f\<close>, whatever the file gives for \<open>f\<close>: the flags are parsed
  again after the object from the file has been copied over the live one.
\<close>

theorem flags_win_over_file:
  assumes "loadConfigFromFile pk (flagCommand rootFind flagSubset formal) allArgs configFilePath fn s
             = (None, s')"
      and "configFilePath \<noteq> []"
      and "rootFind allArgs = Inr args"
      and "supplied formal (flagSubset args) f = Some v"
  shows "controllerConfig s' f = v"
proof -
  from loadConfigFromFile_success[OF assms(1,2)] assms(3) obtain fromFile c where
    "setFlags formal (flagSubset args) fromFile = (None, c)" and "controllerConfig s' = c"
    by (auto simp: flagCommand_def)
  with setFlags_supplied[of formal "flagSubset args" fromFile c f] assms(4)
  show ?thesis by simp
qed

text \<open>
  The file sets \<open>leader-elect\<close> to \<open>false\<close>, the command line has
  \<open>--leader-elect=true\<close>: the resolved value is \<open>true\<close>.
\<close>

theorem flags_win_over_file_witness:
  "fst (loadConfigFromFile exPackages exCommand exArgs ''file.yaml'' exFn exState) = None \<and>
   supplied exFormal (longFlags exArgs) ''leader-elect'' = Some ''true'' \<and>
   controllerConfig (snd (loadConfigFromFile exPackages exCommand exArgs ''file.yaml'' exFn exState))
     ''leader-elect'' = ''true''"
proof -
  have ok: "fst (loadConfigFromFile exPackages exCommand exArgs ''file.yaml'' exFn exState) = None"
    by (simp add: ex_defs)
  then have run: "loadConfigFromFile exPackages (flagCommand Inr longFlags exFormal) exArgs
               ''file.yaml'' exFn exState
             = (None, snd (loadConfigFromFile exPackages exCommand exArgs ''file.yaml'' exFn exState))"
    by (simp add: exCommand_def prod_eq_iff)
  have path: "''file.yaml'' \<noteq> []" by simp
  have sup: "supplied exFormal (longFlags exArgs) ''leader-elect'' = Some ''true''"
    by (simp add: ex_defs)
  from flags_win_over_file[OF run path refl sup] ok sup show ?thesis
    by simp
qed

text \<open>
  C2. The file wins over the defaults. Take a run of \<open>loadConfigFromFile\<close> with a
  configuration file that returns success, over a command whose flags are bound to
  fields, and let \<open>fromFile\<close> be the object the loader decoded the file into. If the
  flag subset of the argument vector supplies no value for the field \<open>f\<close>, the resolved
  configuration has at \<open>f\<close> what \<open>fromFile\<close> has: parsing the flags again sets the flags
  of the argument vector and no other.
\<close>

theorem file_value_kept_without_flag:
  assumes "loadConfigFromFile pk (flagCommand rootFind flagSubset formal) allArgs configFilePath fn s
             = (None, s')"
      and "configFilePath \<noteq> []"
      and "rootFind allArgs = Inr args"
      and "Abs pk configFilePath = Inr a"
      and "NewConfigurationFSLoader pk a = Inr ld"
      and "Load pk ld (New pk) = Inr fromFile"
      and "supplied formal (flagSubset args) f = None"
  shows "controllerConfig s' f = fromFile f"
proof -
  from loadConfigFromFile_success[OF assms(1,2)] assms(3-6) obtain c where
    "setFlags formal (flagSubset args) fromFile = (None, c)" and "controllerConfig s' = c"
    by (auto simp: flagCommand_def)
  with setFlags_supplied[of formal "flagSubset args" fromFile c f] assms(7)
  show ?thesis by simp
qed

text \<open>
  The file sets \<open>v\<close> to \<open>2\<close>, the default of \<open>v\<close> is \<open>0\<close> and the command line has no
  \<open>--v\<close>: the resolved value is \<open>2\<close>.
\<close>

theorem file_value_kept_without_flag_witness:
  "fst (loadConfigFromFile exPackages exCommand exArgs ''file.yaml'' exFn exState) = None \<and>
   supplied exFormal (longFlags exArgs) ''v'' = None \<and>
   exDefaults ''v'' = ''0'' \<and>
   controllerConfig (snd (loadConfigFromFile exPackages exCommand exArgs ''file.yaml'' exFn exState))
     ''v'' = ''2''"
proof -
  have ok: "fst (loadConfigFromFile exPackages exCommand exArgs ''file.yaml'' exFn exState) = None"
    by (simp add: ex_defs)
  then have run: "loadConfigFromFile exPackages (flagCommand Inr longFlags exFormal) exArgs
               ''file.yaml'' exFn exState
             = (None, snd (loadConfigFromFile exPackages exCommand exArgs ''file.yaml'' exFn exState))"
    by (simp add: exCommand_def prod_eq_iff)
  have path: "''file.yaml'' \<noteq> []" by simp
  have abs: "Abs exPackages ''file.yaml'' = Inr ''/etc/file.yaml''"
    by (simp add: exPackages_def)
  have new: "NewConfigurationFSLoader exPackages ''/etc/file.yaml'' = Inr ''/etc/file.yaml''"
    by (simp add: exPackages_def)
  have load: "Load exPackages ''/etc/file.yaml'' (New exPackages)
              = Inr (exDefaults(''leader-elect'' := ''false'', ''v'' := ''2''))"
    by (simp add: exPackages_def)
  have sup: "supplied exFormal (longFlags exArgs) ''v'' = None"
    by (simp add: ex_defs)
  have dflt: "exDefaults ''v'' = ''0''"
    by (simp add: exDefaults_def)
  from file_value_kept_without_flag[OF run path refl abs new load sup] ok sup dflt show ?thesis
    by simp
qed

section \<open>The merge without a file\<close>

text \<open>
  C3. With an empty \<open>configFilePath\<close>, \<open>loadConfigFromFile\<close> returns what the first
  call of the validation callback returns, success when the callback succeeds. The
  callback is the only call it makes: no path is resolved and no file is read. The live
  configuration is left as it was, as the first parse of the flags made it.
\<close>

theorem empty_path_is_phase_one:
  assumes "configFilePath = []"
      and "loadConfigFromFile pk cmd allArgs configFilePath fn s = (r, s')"
  shows "r = fst (fn (controllerConfig s) (process s)) \<and>
         controllerConfig s' = controllerConfig s \<and>
         process s' = snd (fn (controllerConfig s) (process s)) \<and>
         newCalls s s' = [CallFn]"
  using assms
  by (auto simp: loadConfigFromFile_def callFn_eq newCalls_def split: option.splits)

text \<open>
  No \<open>--config\<close>, \<open>--leader-elect=false\<close> on the command line: the merge returns success,
  the configuration is that of the first parse and the callback is the only call.
\<close>

theorem empty_path_is_phase_one_witness:
  "fst (loadConfigFromFile exPackages exCommand exArgsNoFile [] exFn exStateNoFile) = None \<and>
   controllerConfig (snd (loadConfigFromFile exPackages exCommand exArgsNoFile [] exFn exStateNoFile))
     = controllerConfig exStateNoFile \<and>
   newCalls exStateNoFile
     (snd (loadConfigFromFile exPackages exCommand exArgsNoFile [] exFn exStateNoFile)) = [CallFn]"
proof -
  have fn: "fst (exFn (controllerConfig exStateNoFile) (process exStateNoFile)) = None"
    by (simp add: exFn_def exStateNoFile_def exDefaults_def)
  have run: "loadConfigFromFile exPackages exCommand exArgsNoFile [] exFn exStateNoFile
      = (fst (loadConfigFromFile exPackages exCommand exArgsNoFile [] exFn exStateNoFile),
         snd (loadConfigFromFile exPackages exCommand exArgsNoFile [] exFn exStateNoFile))"
    by simp
  from empty_path_is_phase_one[OF refl run] fn
  show ?thesis by simp
qed

section \<open>The order of the calls\<close>

text \<open>
  C4. In every run of \<open>loadConfigFromFile\<close>, the calls made before the first of path
  resolution, loader construction and file load are one call of the validation
  callback and no other, and that call is the callback applied to the configuration
  and the process-wide state the function was entered with: if it fails, its error is
  returned, nothing else is called and the configuration is untouched. In a run with
  a file that returns success the calls are, in this order: the callback, path
  resolution, loader construction, the fresh object, the load, the copy over the live
  object, \<open>Find\<close>, \<open>ParseFlags\<close>, the callback. Every run is of one of two kinds. Either
  the callback is called once, and the process-wide state is what that call left (such
  a run succeeds only with an empty path). Or it is called twice, the second time after
  the overlay and the second parse of the flags: then the configuration left is what
  \<open>ParseFlags\<close> made of the object from the file, and what is returned and the
  process-wide state left are the result of the callback applied to that configuration
  in the state its first call left.
\<close>

theorem validation_callback_order:
  assumes "loadConfigFromFile pk cmd allArgs configFilePath fn s = (r, s')"
  shows "takeWhile (\<lambda>c. c \<notin> {CallAbs, CallNewConfigurationFSLoader, CallLoad}) (newCalls s s')
           = [CallFn] \<and>
         (r = None \<and> configFilePath \<noteq> [] \<longrightarrow>
            newCalls s s' =
              [CallFn, CallAbs, CallNewConfigurationFSLoader, CallNew, CallLoad, CallDeepCopyInto,
               CallFind, CallParseFlags, CallFn] \<and>
            count_list (newCalls s s') CallFn = 2) \<and>
         (\<forall>e. fst (fn (controllerConfig s) (process s)) = Some e \<longrightarrow>
            r = Some e \<and> newCalls s s' = [CallFn] \<and> controllerConfig s' = controllerConfig s) \<and>
         (count_list (newCalls s s') CallFn = 1 \<and>
            process s' = snd (fn (controllerConfig s) (process s)) \<and>
            (r = None \<longrightarrow> configFilePath = [])
          \<or>
          count_list (newCalls s s') CallFn = 2 \<and>
            fst (fn (controllerConfig s) (process s)) = None \<and> configFilePath \<noteq> [] \<and>
            newCalls s s' =
              [CallFn, CallAbs, CallNewConfigurationFSLoader, CallNew, CallLoad, CallDeepCopyInto,
               CallFind, CallParseFlags, CallFn] \<and>
            (\<exists>a ld fromFile args.
               Abs pk configFilePath = Inr a \<and> NewConfigurationFSLoader pk a = Inr ld \<and>
               Load pk ld (New pk) = Inr fromFile \<and> Find cmd allArgs = Inr args \<and>
               ParseFlags cmd args fromFile = (None, controllerConfig s')) \<and>
            fn (controllerConfig s') (snd (fn (controllerConfig s) (process s))) = (r, process s'))"
proof -
  from loadConfigFromFile_calls[of pk cmd allArgs configFilePath fn s] assms
  obtain cs where "calls s' = calls s @ CallFn # cs"
    "takeWhile (\<lambda>c. c \<notin> {CallAbs, CallNewConfigurationFSLoader, CallLoad}) cs = []"
    by auto
  then have first: "takeWhile (\<lambda>c. c \<notin> {CallAbs, CallNewConfigurationFSLoader, CallLoad})
      (newCalls s s') = [CallFn]"
    by (simp add: newCalls_def)
  have second: "newCalls s s' =
              [CallFn, CallAbs, CallNewConfigurationFSLoader, CallNew, CallLoad, CallDeepCopyInto,
               CallFind, CallParseFlags, CallFn]" if "r = None" "configFilePath \<noteq> []"
    using loadConfigFromFile_success[of pk cmd allArgs configFilePath fn s s'] assms that
    by (auto simp: newCalls_def)
  have phaseA: "r = Some e \<and> newCalls s s' = [CallFn] \<and> controllerConfig s' = controllerConfig s"
    if "fst (fn (controllerConfig s) (process s)) = Some e" for e
    using assms that
    by (auto simp: loadConfigFromFile_def callFn_eq newCalls_def)
  have applied: "count_list (newCalls s s') CallFn = 1 \<and>
            process s' = snd (fn (controllerConfig s) (process s)) \<and>
            (r = None \<longrightarrow> configFilePath = [])
          \<or>
          count_list (newCalls s s') CallFn = 2 \<and>
            fst (fn (controllerConfig s) (process s)) = None \<and> configFilePath \<noteq> [] \<and>
            newCalls s s' =
              [CallFn, CallAbs, CallNewConfigurationFSLoader, CallNew, CallLoad, CallDeepCopyInto,
               CallFind, CallParseFlags, CallFn] \<and>
            (\<exists>a ld fromFile args.
               Abs pk configFilePath = Inr a \<and> NewConfigurationFSLoader pk a = Inr ld \<and>
               Load pk ld (New pk) = Inr fromFile \<and> Find cmd allArgs = Inr args \<and>
               ParseFlags cmd args fromFile = (None, controllerConfig s')) \<and>
            fn (controllerConfig s') (snd (fn (controllerConfig s) (process s))) = (r, process s')"
    using assms
    by (auto simp: loadConfigFromFile_def callFn_eq loadFile_def reparseFlags_def logCalls_def
        newCalls_def DeepCopyInto_def prod_eq_iff
        split: option.splits sum.splits if_splits prod.splits)
  from first second phaseA applied show ?thesis by simp
qed


text \<open>
  The run of \<open>--config=file.yaml --leader-elect=true\<close> succeeds and makes these calls;
  its first call of the callback leaves the verbosity \<open>0\<close> in force, its second the
  file's \<open>2\<close>. The run of \<open>--config=file.yaml --v=\<close> fails in the first call and makes
  no other.
\<close>

theorem validation_callback_order_witness:
  "fst (loadConfigFromFile exPackages exCommand exArgs ''file.yaml'' exFn exState) = None \<and>
   newCalls exState (snd (loadConfigFromFile exPackages exCommand exArgs ''file.yaml'' exFn exState))
     = [CallFn, CallAbs, CallNewConfigurationFSLoader, CallNew, CallLoad, CallDeepCopyInto,
        CallFind, CallParseFlags, CallFn] \<and>
   takeWhile (\<lambda>c. c \<notin> {CallAbs, CallNewConfigurationFSLoader, CallLoad})
     (newCalls exState (snd (loadConfigFromFile exPackages exCommand exArgs ''file.yaml'' exFn exState)))
     = [CallFn] \<and>
   exFn (controllerConfig exState) (process exState) = (None, ''0'') \<and>
   exFn (controllerConfig (snd (loadConfigFromFile exPackages exCommand exArgs ''file.yaml'' exFn exState)))
        ''0''
     = (None, process (snd (loadConfigFromFile exPackages exCommand exArgs ''file.yaml'' exFn exState))) \<and>
   process (snd (loadConfigFromFile exPackages exCommand exArgs ''file.yaml'' exFn exState)) = ''2'' \<and>
   fst (loadConfigFromFile exPackages exCommand exArgsEmptyV ''file.yaml'' exFn exStateEmptyV)
     = Some (Err ''invalid verbosity'') \<and>
   newCalls exStateEmptyV
     (snd (loadConfigFromFile exPackages exCommand exArgsEmptyV ''file.yaml'' exFn exStateEmptyV))
     = [CallFn]"
proof -
  let ?L = "loadConfigFromFile exPackages exCommand exArgs ''file.yaml'' exFn exState"
  let ?B = "loadConfigFromFile exPackages exCommand exArgsEmptyV ''file.yaml'' exFn exStateEmptyV"
  have ok: "fst ?L = None"
    by (simp add: ex_defs)
  have g: "process (snd ?L) = ''2''"
    by (simp add: ex_defs)
  have phaseA: "exFn (controllerConfig exState) (process exState) = (None, ''0'')"
    by (simp add: exFn_def exState_def exDefaults_def)
  have bad: "fst (exFn (controllerConfig exStateEmptyV) (process exStateEmptyV))
      = Some (Err ''invalid verbosity'')"
    by (simp add: exFn_def exStateEmptyV_def)
  have path: "''file.yaml'' \<noteq> []" by simp
  have runL: "?L = (fst ?L, snd ?L)" by simp
  have runB: "?B = (fst ?B, snd ?B)" by simp
  from validation_callback_order[OF runL] ok phaseA path
  have one: "newCalls exState (snd ?L)
       = [CallFn, CallAbs, CallNewConfigurationFSLoader, CallNew, CallLoad, CallDeepCopyInto,
          CallFind, CallParseFlags, CallFn]"
    "takeWhile (\<lambda>c. c \<notin> {CallAbs, CallNewConfigurationFSLoader, CallLoad}) (newCalls exState (snd ?L))
       = [CallFn]"
    "exFn (controllerConfig (snd ?L)) ''0'' = (None, process (snd ?L))"
    by simp_all
  from validation_callback_order[OF runB] bad
  have two: "fst ?B = Some (Err ''invalid verbosity'')" "newCalls exStateEmptyV (snd ?B) = [CallFn]"
    by simp_all
  from ok g phaseA one two show ?thesis by simp
qed

section \<open>The action of the command\<close>

text \<open>
  C5. If \<open>loadConfigFromFile\<close> returns an error, \<open>RunE\<close> returns that error and the state
  as the merge left it, and the run loop has not been called; if \<open>RunE\<close> returns with
  the run loop called, the merge had returned success. Step by step: if the first call
  of the validation callback fails, \<open>RunE\<close> returns its error, with a file or without.
  If it succeeds and a file is given, then: if path resolution, loader construction or
  the load fails, \<open>RunE\<close> returns the load error made of the path and the cause; if
  \<open>Find\<close> or \<open>ParseFlags\<close> fails, \<open>RunE\<close> returns the error wrapped as a failure to
  parse the flags again; if the second call of the callback fails, \<open>RunE\<close> returns its
  error. In each of these cases the run loop is not called. If the merge returns
  success, \<open>RunE\<close> is the run loop on the resolved configuration.
\<close>

theorem merge_error_stops_RunE:
  "(loadConfigFromFile pk cmd allArgs Config (RunE_fn act) s = (Some err, s') \<longrightarrow>
      RunE pk act run cmd allArgs Config s = Some (Some err, s') \<and>
      CallRun \<notin> set (newCalls s s')) \<and>
   (RunE pk act run cmd allArgs Config s = Some (r, s'') \<and> CallRun \<in> set (newCalls s s'') \<longrightarrow>
      fst (loadConfigFromFile pk cmd allArgs Config (RunE_fn act) s) = None) \<and>
   (RunE_fn act (controllerConfig s) (process s) = (Some err, g) \<longrightarrow>
      RunE pk act run cmd allArgs Config s
        = Some (Some err, s\<lparr>process := g, calls := calls s @ [CallFn]\<rparr>)) \<and>
   (RunE_fn act (controllerConfig s) (process s) = (None, gA) \<and> Config \<noteq> [] \<and>
    (Abs pk Config = Inl cause \<or>
     (\<exists>a. Abs pk Config = Inr a \<and>
        (NewConfigurationFSLoader pk a = Inl cause \<or>
         (\<exists>ld. NewConfigurationFSLoader pk a = Inr ld \<and> Load pk ld (New pk) = Inl cause)))) \<longrightarrow>
      (\<exists>s1. RunE pk act run cmd allArgs Config s = Some (Some (loadError Config cause), s1) \<and>
            CallRun \<notin> set (newCalls s s1))) \<and>
   (RunE_fn act (controllerConfig s) (process s) = (None, gA) \<and> Config \<noteq> [] \<and>
    Abs pk Config = Inr a \<and> NewConfigurationFSLoader pk a = Inr ld \<and>
    Load pk ld (New pk) = Inr fromFile \<longrightarrow>
      (Find cmd allArgs = Inl err \<longrightarrow>
         (\<exists>s1. RunE pk act run cmd allArgs Config s = Some (Some (reparseError err), s1) \<and>
               CallRun \<notin> set (newCalls s s1))) \<and>
      (Find cmd allArgs = Inr args \<and> ParseFlags cmd args fromFile = (Some err, c) \<longrightarrow>
         (\<exists>s1. RunE pk act run cmd allArgs Config s = Some (Some (reparseError err), s1) \<and>
               CallRun \<notin> set (newCalls s s1))) \<and>
      (Find cmd allArgs = Inr args \<and> ParseFlags cmd args fromFile = (None, c) \<and>
       RunE_fn act c gA = (Some err, gB) \<longrightarrow>
         (\<exists>s1. RunE pk act run cmd allArgs Config s = Some (Some err, s1) \<and>
               CallRun \<notin> set (newCalls s s1)))) \<and>
   (loadConfigFromFile pk cmd allArgs Config (RunE_fn act) s = (None, s') \<longrightarrow>
      RunE pk act run cmd allArgs Config s
        = (case run (controllerConfig s') (process s') of
             None \<Rightarrow> None
           | Some (r, g) \<Rightarrow> Some (r, s'\<lparr>process := g, calls := calls s' @ [CallRun]\<rparr>)))"
proof -
  let ?L = "loadConfigFromFile pk cmd allArgs Config (RunE_fn act) s"
  let ?R = "RunE pk act run cmd allArgs Config s"
  have stops: "\<exists>s1. ?R = Some (Some e, s1) \<and> CallRun \<notin> set (newCalls s s1)"
    if "fst ?L = Some e" for e
    using RunE_stops[OF that, of run] that
    by (cases ?L) auto
  have c1: "?R = Some (Some err, s') \<and> CallRun \<notin> set (newCalls s s')"
    if "?L = (Some err, s')"
    using that loadConfigFromFile_no_run[OF that] by (simp add: RunE_def)
  have c2: "fst ?L = None"
    if "?R = Some (r, s'')" "CallRun \<in> set (newCalls s s'')"
  proof (cases ?L)
    case (Pair r1 s1)
    show ?thesis
    proof (cases r1)
      case None
      with Pair show ?thesis by simp
    next
      case (Some e)
      with Pair that(1) have "s'' = s1" by (simp add: RunE_def)
      with loadConfigFromFile_no_run[OF Pair] that(2) show ?thesis by simp
    qed
  qed
  have c3: "?R = Some (Some err, s\<lparr>process := g, calls := calls s @ [CallFn]\<rparr>)"
    if "RunE_fn act (controllerConfig s) (process s) = (Some err, g)"
    using loadConfigFromFile_phaseA_fails[where fn = "RunE_fn act" and s = s and pk = pk
        and cmd = cmd and allArgs = allArgs and p = Config, OF that]
    by (simp add: RunE_def)
  have c4: "\<exists>s1. ?R = Some (Some (loadError Config cause), s1) \<and> CallRun \<notin> set (newCalls s s1)"
    if "RunE_fn act (controllerConfig s) (process s) = (None, gA)" "Config \<noteq> []"
      "Abs pk Config = Inl cause \<or>
       (\<exists>a. Abs pk Config = Inr a \<and>
        (NewConfigurationFSLoader pk a = Inl cause \<or>
         (\<exists>ld. NewConfigurationFSLoader pk a = Inr ld \<and> Load pk ld (New pk) = Inl cause)))"
    using stops[OF loadConfigFromFile_file_fails[where fn = "RunE_fn act" and s = s, OF that]] .
  have c5: "\<exists>s1. ?R = Some (Some (reparseError err), s1) \<and> CallRun \<notin> set (newCalls s s1)"
    if "RunE_fn act (controllerConfig s) (process s) = (None, gA)" "Config \<noteq> []"
      "Abs pk Config = Inr a" "NewConfigurationFSLoader pk a = Inr ld"
      "Load pk ld (New pk) = Inr fromFile" "Find cmd allArgs = Inl err"
    using stops[OF loadConfigFromFile_reparse_fails(1)[where fn = "RunE_fn act" and s = s, OF that]] .
  have c6: "\<exists>s1. ?R = Some (Some (reparseError err), s1) \<and> CallRun \<notin> set (newCalls s s1)"
    if "RunE_fn act (controllerConfig s) (process s) = (None, gA)" "Config \<noteq> []"
      "Abs pk Config = Inr a" "NewConfigurationFSLoader pk a = Inr ld"
      "Load pk ld (New pk) = Inr fromFile" "Find cmd allArgs = Inr args"
      "ParseFlags cmd args fromFile = (Some err, c)"
    using stops[OF loadConfigFromFile_reparse_fails(2)[where fn = "RunE_fn act" and s = s, OF that]] .
  have c7: "\<exists>s1. ?R = Some (Some err, s1) \<and> CallRun \<notin> set (newCalls s s1)"
    if "RunE_fn act (controllerConfig s) (process s) = (None, gA)" "Config \<noteq> []"
      "Abs pk Config = Inr a" "NewConfigurationFSLoader pk a = Inr ld"
      "Load pk ld (New pk) = Inr fromFile" "Find cmd allArgs = Inr args"
      "ParseFlags cmd args fromFile = (None, c)" "RunE_fn act c gA = (Some err, gB)"
    using stops[OF loadConfigFromFile_reparse_fails(3)[where fn = "RunE_fn act" and s = s, OF that]] .
  have c8: "?R = (case run (controllerConfig s') (process s') of
             None \<Rightarrow> None
           | Some (r, g) \<Rightarrow> Some (r, s'\<lparr>process := g, calls := calls s' @ [CallRun]\<rparr>))"
    if "?L = (None, s')"
    using that by (simp add: RunE_def)
  from c1 c2 c3 c4 c5 c6 c7 c8 show ?thesis by blast
qed


text \<open>
  With \<open>--config=missing.yaml\<close> the action returns the error of the load, which names
  \<open>missing.yaml\<close>, and the run loop is not called. With no file the merge succeeds and
  the run loop is called. With a file and an invalid verbosity from the flags the first
  validation fails; with the command not found, with an unknown flag, and with a file
  that holds an invalid verbosity, the action returns the error and the run loop is
  not called.
\<close>

theorem merge_error_stops_RunE_witness:
  "fst (loadConfigFromFile exCtlPackages exCtlCommand exArgsMissing ''missing.yaml''
          (RunE_fn exActivation) exCtlState)
     = Some (Err ''failed to load config file missing.yaml, error open /etc/missing.yaml: no such file or directory'') \<and>
   RunE exCtlPackages exActivation exRun exCtlCommand exArgsMissing ''missing.yaml'' exCtlState
     = Some (loadConfigFromFile exCtlPackages exCtlCommand exArgsMissing ''missing.yaml''
          (RunE_fn exActivation) exCtlState) \<and>
   CallRun \<notin> set (newCalls exCtlState
     (snd (loadConfigFromFile exCtlPackages exCtlCommand exArgsMissing ''missing.yaml''
          (RunE_fn exActivation) exCtlState))) \<and>
   RunE exCtlPackages exActivation exRun exCtlCommand [] [] exCtlState
     = Some (None, exCtlState\<lparr>process := (''5'', Map.empty), calls := [CallFn, CallRun]\<rparr>) \<and>
   fst (loadConfigFromFile exCtlPackages exCtlCommand [] [] (RunE_fn exActivation) exCtlState) = None \<and>
   RunE exCtlPackages exActivation exRun exCtlCommand [''--config=file.yaml'', ''--v=''] ''file.yaml''
       exCtlStateEmptyV
     = Some (Some (Wrap ''failed to validate controller logging flags: invalid verbosity''
                    (Err ''invalid verbosity'')),
             exCtlStateEmptyV\<lparr>process := ([], Map.empty), calls := [CallFn]\<rparr>) \<and>
   (\<exists>s1. RunE exCtlPackages exActivation exRun exCtlLostCommand [''--config=file.yaml''] ''file.yaml''
           exCtlStateDefault
         = Some (Some (Wrap ''failed to re-parse flags: unknown command'' (Err ''unknown command'')), s1) \<and>
         CallRun \<notin> set (newCalls exCtlStateDefault s1)) \<and>
   (\<exists>s1. RunE exCtlPackages exActivation exRun exCtlCommand [''--config=file.yaml'', ''--bogus''] ''file.yaml''
           exCtlStateDefault
         = Some (Some (Wrap ''failed to re-parse flags: unknown flag: --bogus''
                        (Err ''unknown flag: --bogus'')), s1) \<and>
         CallRun \<notin> set (newCalls exCtlStateDefault s1)) \<and>
   (\<exists>s1. RunE exCtlPackages exActivation exRun exCtlCommand [''--config=bad.yaml''] ''bad.yaml''
           exCtlStateDefault
         = Some (Some (Wrap ''failed to validate controller logging flags: invalid verbosity''
                        (Err ''invalid verbosity'')), s1) \<and>
         CallRun \<notin> set (newCalls exCtlStateDefault s1))"
proof -
  let ?L = "loadConfigFromFile exCtlPackages exCtlCommand exArgsMissing ''missing.yaml''
          (RunE_fn exActivation) exCtlState"
  let ?e = "Err ''failed to load config file missing.yaml, error open /etc/missing.yaml: no such file or directory''"
  let ?s = "exCtlState\<lparr>process := (''5'', Map.empty), calls := [CallFn, CallRun]\<rparr>"
  let ?v = "Wrap ''failed to validate controller logging flags: invalid verbosity''
              (Err ''invalid verbosity'')"
  have err: "fst ?L = Some ?e"
    by (simp add: ctl_defs)
  then have run: "?L = (Some ?e, snd ?L)"
    by (simp add: prod_eq_iff)
  have started: "RunE exCtlPackages exActivation exRun exCtlCommand [] [] exCtlState = Some (None, ?s)"
    by (simp add: ctl_defs)
  have logged: "CallRun \<in> set (newCalls exCtlState ?s)"
    by (simp add: newCalls_def exCtlState_def)
  from merge_error_stops_RunE[of exCtlPackages exCtlCommand exArgsMissing "''missing.yaml''"
      exActivation exCtlState ?e "snd ?L" exRun] run err
  have failing: "RunE exCtlPackages exActivation exRun exCtlCommand exArgsMissing ''missing.yaml''
      exCtlState = Some ?L \<and> CallRun \<notin> set (newCalls exCtlState (snd ?L))"
    by simp
  from merge_error_stops_RunE[of exCtlPackages exCtlCommand "[]" "[]" exActivation exCtlState
      _ _ exRun None ?s] started logged
  have succeeded:
    "fst (loadConfigFromFile exCtlPackages exCtlCommand [] [] (RunE_fn exActivation) exCtlState)
      = None"
    by blast
  have abs: "Abs exCtlPackages p = Inr (''/etc/'' @ p)" for p
    by (simp add: exCtlPackages_def)
  have new: "NewConfigurationFSLoader exCtlPackages p = Inr p" for p
    by (simp add: exCtlPackages_def)
  have load: "Load exCtlPackages (''/etc/'' @ ''file.yaml'') (New exCtlPackages)
      = Inr \<lparr>Logging = ''2'', FeatureGates = Map.empty\<rparr>"
    by (simp add: exCtlPackages_def)
  have loadBad: "Load exCtlPackages (''/etc/'' @ ''bad.yaml'') (New exCtlPackages)
      = Inr \<lparr>Logging = [], FeatureGates = Map.empty\<rparr>"
    by (simp add: exCtlPackages_def)
  have fnEmpty: "RunE_fn exActivation (controllerConfig exCtlStateEmptyV) (process exCtlStateEmptyV)
      = (Some ?v, ([], Map.empty))"
    by (simp add: RunE_fn_def exActivation_def exCtlStateEmptyV_def)
  have fnDefault: "RunE_fn exActivation (controllerConfig exCtlStateDefault) (process exCtlStateDefault)
      = (None, (''0'', Map.empty))"
    by (simp add: RunE_fn_def exActivation_def exCtlStateDefault_def)
  have fnBad: "RunE_fn exActivation \<lparr>Logging = [], FeatureGates = Map.empty\<rparr> (''0'', Map.empty)
      = (Some ?v, (''0'', Map.empty))"
    by (simp add: RunE_fn_def exActivation_def)
  have lost: "Find exCtlLostCommand argv = Inl (Err ''unknown command'')" for argv
    by (simp add: exCtlLostCommand_def)
  have find: "Find exCtlCommand argv = Inr argv" for argv
    by (simp add: exCtlCommand_def)
  have parseBogus: "ParseFlags exCtlCommand [''--config=file.yaml'', ''--bogus'']
        \<lparr>Logging = ''2'', FeatureGates = Map.empty\<rparr>
      = (Some (Err ''unknown flag: --bogus''), \<lparr>Logging = ''2'', FeatureGates = Map.empty\<rparr>)"
    by (simp add: exCtlCommand_def)
  have parseBad: "ParseFlags exCtlCommand [''--config=bad.yaml'']
        \<lparr>Logging = [], FeatureGates = Map.empty\<rparr>
      = (None, \<lparr>Logging = [], FeatureGates = Map.empty\<rparr>)"
    by (simp add: exCtlCommand_def)
  have path: "''file.yaml'' \<noteq> []" "''bad.yaml'' \<noteq> []" by simp_all
  from merge_error_stops_RunE[where pk = exCtlPackages and act = exActivation and run = exRun
      and cmd = exCtlCommand and allArgs = "[''--config=file.yaml'', ''--v='']"
      and Config = "''file.yaml''" and s = exCtlStateEmptyV and err = ?v and g = "([], Map.empty)"]
    fnEmpty
  have phaseA: "RunE exCtlPackages exActivation exRun exCtlCommand [''--config=file.yaml'', ''--v='']
       ''file.yaml'' exCtlStateEmptyV
     = Some (Some ?v, exCtlStateEmptyV\<lparr>process := ([], Map.empty), calls := [CallFn]\<rparr>)"
    by (simp add: exCtlStateEmptyV_def)
  from merge_error_stops_RunE[where pk = exCtlPackages and act = exActivation and run = exRun
      and cmd = exCtlLostCommand and allArgs = "[''--config=file.yaml'']"
      and Config = "''file.yaml''" and s = exCtlStateDefault and err = "Err ''unknown command''"
      and gA = "(''0'', Map.empty)" and a = "''/etc/'' @ ''file.yaml''"
      and ld = "''/etc/'' @ ''file.yaml''"
      and fromFile = "\<lparr>Logging = ''2'', FeatureGates = Map.empty\<rparr>"]
    fnDefault path abs new load lost
  have findFails: "\<exists>s1. RunE exCtlPackages exActivation exRun exCtlLostCommand [''--config=file.yaml'']
           ''file.yaml'' exCtlStateDefault
         = Some (Some (Wrap ''failed to re-parse flags: unknown command'' (Err ''unknown command'')), s1) \<and>
         CallRun \<notin> set (newCalls exCtlStateDefault s1)"
    by (simp add: reparseError_def)
  from merge_error_stops_RunE[where pk = exCtlPackages and act = exActivation and run = exRun
      and cmd = exCtlCommand and allArgs = "[''--config=file.yaml'', ''--bogus'']"
      and args = "[''--config=file.yaml'', ''--bogus'']"
      and Config = "''file.yaml''" and s = exCtlStateDefault and err = "Err ''unknown flag: --bogus''"
      and gA = "(''0'', Map.empty)" and a = "''/etc/'' @ ''file.yaml''"
      and ld = "''/etc/'' @ ''file.yaml''"
      and fromFile = "\<lparr>Logging = ''2'', FeatureGates = Map.empty\<rparr>"
      and c = "\<lparr>Logging = ''2'', FeatureGates = Map.empty\<rparr>"]
    fnDefault path abs new load find parseBogus
  have parseFails: "\<exists>s1. RunE exCtlPackages exActivation exRun exCtlCommand
           [''--config=file.yaml'', ''--bogus''] ''file.yaml'' exCtlStateDefault
         = Some (Some (Wrap ''failed to re-parse flags: unknown flag: --bogus''
                        (Err ''unknown flag: --bogus'')), s1) \<and>
         CallRun \<notin> set (newCalls exCtlStateDefault s1)"
    by (simp add: reparseError_def)
  from merge_error_stops_RunE[where pk = exCtlPackages and act = exActivation and run = exRun
      and cmd = exCtlCommand and allArgs = "[''--config=bad.yaml'']"
      and args = "[''--config=bad.yaml'']"
      and Config = "''bad.yaml''" and s = exCtlStateDefault and err = ?v
      and gA = "(''0'', Map.empty)" and gB = "(''0'', Map.empty)" and a = "''/etc/'' @ ''bad.yaml''"
      and ld = "''/etc/'' @ ''bad.yaml''"
      and fromFile = "\<lparr>Logging = [], FeatureGates = Map.empty\<rparr>"
      and c = "\<lparr>Logging = [], FeatureGates = Map.empty\<rparr>"]
    fnDefault path abs new loadBad find parseBad fnBad
  have phaseB: "\<exists>s1. RunE exCtlPackages exActivation exRun exCtlCommand [''--config=bad.yaml'']
           ''bad.yaml'' exCtlStateDefault
         = Some (Some ?v, s1) \<and> CallRun \<notin> set (newCalls exCtlStateDefault s1)"
    by simp
  from err failing started succeeded phaseA findFails parseFails phaseB show ?thesis
    by simp
qed

section \<open>Running the merge twice\<close>

text \<open>
  C6. The merge is idempotent. Let the validation callback be idempotent: when it
  succeeds and leaves the process-wide state \<open>g'\<close>, it succeeds on the same configuration
  in \<open>g'\<close> and leaves \<open>g'\<close>. If a run of \<open>loadConfigFromFile\<close> returns success with state
  \<open>s1\<close>, a second run with the same arguments (and so the same file, read by the same
  loader) from \<open>s1\<close> returns success with the same configuration and the same
  process-wide state. The collaborators are functions of their arguments, and the
  copy over the live object replaces it whole.
\<close>

theorem merge_idempotent:
  assumes idem: "\<And>c g g'. fn c g = (None, g') \<Longrightarrow> fn c g' = (None, g')"
      and run1: "loadConfigFromFile pk cmd allArgs configFilePath fn s = (None, s1)"
  shows "\<exists>s2. loadConfigFromFile pk cmd allArgs configFilePath fn s1 = (None, s2) \<and>
              controllerConfig s2 = controllerConfig s1 \<and> process s2 = process s1"
proof (cases "configFilePath = []")
  case True
  with run1 have fn1: "fn (controllerConfig s) (process s) = (None, process s1)"
    and c: "controllerConfig s1 = controllerConfig s"
    by (auto simp: loadConfigFromFile_def callFn_def split: prod.splits option.splits)
  from idem[OF fn1] c have "fn (controllerConfig s1) (process s1) = (None, process s1)"
    by simp
  with True show ?thesis
    by (simp add: loadConfigFromFile_def callFn_def)
next
  case False
  from loadConfigFromFile_success[OF run1 False] obtain gA a ld fromFile args c gB where
    st: "Abs pk configFilePath = Inr a" "NewConfigurationFSLoader pk a = Inr ld"
      "Load pk ld (New pk) = Inr fromFile" "Find cmd allArgs = Inr args"
      "ParseFlags cmd args fromFile = (None, c)"
    and fnB: "fn c gA = (None, gB)"
    and s1: "controllerConfig s1 = c" "process s1 = gB"
    by auto
  from idem[OF fnB] have again: "fn c gB = (None, gB)" .
  with False st s1 show ?thesis
    by (simp add: loadConfigFromFile_def callFn_def loadFile_def reparseFlags_def logCalls_def
        DeepCopyInto_def)
qed

text \<open>
  The run of \<open>--config=file.yaml --leader-elect=true\<close>, and the same run again from the
  state the first one leaves.
\<close>

theorem merge_idempotent_witness:
  "fst (loadConfigFromFile exPackages exCommand exArgs ''file.yaml'' exFn exState) = None \<and>
   (\<exists>s2. loadConfigFromFile exPackages exCommand exArgs ''file.yaml'' exFn
           (snd (loadConfigFromFile exPackages exCommand exArgs ''file.yaml'' exFn exState))
         = (None, s2) \<and>
         controllerConfig s2 =
           controllerConfig (snd (loadConfigFromFile exPackages exCommand exArgs ''file.yaml'' exFn exState)) \<and>
         process s2 =
           process (snd (loadConfigFromFile exPackages exCommand exArgs ''file.yaml'' exFn exState)))"
proof -
  let ?L = "loadConfigFromFile exPackages exCommand exArgs ''file.yaml'' exFn exState"
  have ok: "fst ?L = None"
    by (simp add: ex_defs)
  then have run: "?L = (None, snd ?L)"
    by (simp add: prod_eq_iff)
  have "\<exists>s2. loadConfigFromFile exPackages exCommand exArgs ''file.yaml'' exFn (snd ?L) = (None, s2) \<and>
         controllerConfig s2 = controllerConfig (snd ?L) \<and> process s2 = process (snd ?L)"
  proof (rule merge_idempotent[OF _ run])
    fix c g g'
    assume "exFn c g = (None, g')"
    then show "exFn c g' = (None, g')"
      by (auto simp: exFn_def split: if_splits)
  qed
  with ok show ?thesis by simp
qed

section \<open>The overlay\<close>

text \<open>
  C7. When the path is resolved, the loader is built and the file is loaded into the
  object \<open>fromFile\<close>, the block of lines 132 to 147 returns success and leaves the live
  configuration equal to \<open>fromFile\<close>, whatever the live configuration held before (what
  the flags had set included); the process-wide state is untouched. This is the state
  on which \<open>loadConfigFromFile\<close> goes on to parse the flags again.
\<close>

theorem overlay_replaces_live_object:
  assumes "Abs pk configFilePath = Inr a"
      and "NewConfigurationFSLoader pk a = Inr ld"
      and "Load pk ld (New pk) = Inr fromFile"
  shows "fst (loadFile pk configFilePath s) = None \<and>
         controllerConfig (snd (loadFile pk configFilePath s)) = fromFile \<and>
         process (snd (loadFile pk configFilePath s)) = process s \<and>
         (fst (callFn fn s0) = None \<and> configFilePath \<noteq> [] \<and> s = snd (callFn fn s0) \<longrightarrow>
            loadConfigFromFile pk cmd allArgs configFilePath fn s0
              = reparseFlags cmd allArgs fn (snd (loadFile pk configFilePath s)))"
  using assms
  by (auto simp: loadFile_def logCalls_def DeepCopyInto_def loadConfigFromFile_def
      split: prod.splits option.splits)

text \<open>
  The flag had set \<open>leader-elect\<close> to \<open>true\<close>; right after the overlay of \<open>file.yaml\<close>
  the live configuration is the object from the file, with \<open>leader-elect\<close> at \<open>false\<close>.
\<close>

theorem overlay_replaces_live_object_witness:
  "controllerConfig (snd (callFn exFn exState)) ''leader-elect'' = ''true'' \<and>
   fst (loadFile exPackages ''file.yaml'' (snd (callFn exFn exState))) = None \<and>
   controllerConfig (snd (loadFile exPackages ''file.yaml'' (snd (callFn exFn exState))))
     = exDefaults(''leader-elect'' := ''false'', ''v'' := ''2'') \<and>
   controllerConfig (snd (loadFile exPackages ''file.yaml'' (snd (callFn exFn exState))))
     ''leader-elect'' = ''false'' \<and>
   loadConfigFromFile exPackages exCommand exArgs ''file.yaml'' exFn exState
     = reparseFlags exCommand exArgs exFn
         (snd (loadFile exPackages ''file.yaml'' (snd (callFn exFn exState))))"
proof -
  have abs: "Abs exPackages ''file.yaml'' = Inr ''/etc/file.yaml''"
    by (simp add: exPackages_def)
  have new: "NewConfigurationFSLoader exPackages ''/etc/file.yaml'' = Inr ''/etc/file.yaml''"
    by (simp add: exPackages_def)
  have load: "Load exPackages ''/etc/file.yaml'' (New exPackages)
              = Inr (exDefaults(''leader-elect'' := ''false'', ''v'' := ''2''))"
    by (simp add: exPackages_def)
  have live: "controllerConfig (snd (callFn exFn exState)) ''leader-elect'' = ''true''"
    by (simp add: callFn_eq exState_def)
  have phaseA: "fst (callFn exFn exState) = None"
    by (simp add: callFn_eq exFn_def exState_def exDefaults_def)
  have path: "''file.yaml'' \<noteq> []" by simp
  from overlay_replaces_live_object[where s = "snd (callFn exFn exState)" and fn = exFn
      and ?s0.0 = exState and cmd = exCommand and allArgs = exArgs, OF abs new load]
    live phaseA path
  show ?thesis by simp
qed

section \<open>Errors returned\<close>

text \<open>
  C8. Let the first call of the validation callback succeed and \<open>configFilePath\<close> be
  non-empty. If path resolution, loader construction or the load fails with the error
  \<open>cause\<close>, \<open>loadConfigFromFile\<close> returns an error whose message is
  \<open>failed to load config file\<close>, the path as supplied, \<open>, error\<close> and the message of
  \<open>cause\<close>; so the message contains both the supplied path and the cause.
\<close>

theorem file_errors_name_path_and_cause:
  assumes "fst (fn (controllerConfig s) (process s)) = None"
      and "configFilePath \<noteq> []"
      and "Abs pk configFilePath = Inl cause \<or>
           (\<exists>a. Abs pk configFilePath = Inr a \<and>
              (NewConfigurationFSLoader pk a = Inl cause \<or>
               (\<exists>ld. NewConfigurationFSLoader pk a = Inr ld \<and>
                     Load pk ld (New pk) = Inl cause)))"
  shows "\<exists>e. fst (loadConfigFromFile pk cmd allArgs configFilePath fn s) = Some e \<and>
             message e = ''failed to load config file '' @ configFilePath @ '', error ''
                           @ message cause \<and>
             sublist configFilePath (message e) \<and> sublist (message cause) (message e)"
proof -
  have "fst (loadFile pk configFilePath (snd (callFn fn s)))
          = Some (loadError configFilePath cause)"
    using assms(3) by (auto simp: loadFile_def)
  with assms(1,2)
  have "fst (loadConfigFromFile pk cmd allArgs configFilePath fn s)
          = Some (loadError configFilePath cause)"
    by (auto simp: loadConfigFromFile_def callFn_eq prod_eq_iff split: prod.splits option.splits)
  moreover have "sublist configFilePath (message (loadError configFilePath cause))"
    unfolding loadError_def message.simps by (rule sublist_appendI)
  moreover have "sublist (message cause) (message (loadError configFilePath cause))"
    unfolding loadError_def message.simps
    using sublist_append_leftI[of "message cause" "''failed to load config file '' @ configFilePath @ '', error ''"]
    by simp
  ultimately show ?thesis by (simp add: loadError_def)
qed

text \<open>
  \<open>--config=missing.yaml\<close>: the message names \<open>missing.yaml\<close> and the loader's error.
\<close>

theorem file_errors_name_path_and_cause_witness:
  "\<exists>e. fst (loadConfigFromFile exPackages exCommand exArgsMissing ''missing.yaml'' exFn exStateV)
          = Some e \<and>
       message e = ''failed to load config file missing.yaml, error open /etc/missing.yaml: no such file or directory'' \<and>
       sublist ''missing.yaml'' (message e) \<and>
       sublist ''open /etc/missing.yaml: no such file or directory'' (message e)"
proof -
  have fn: "fst (exFn (controllerConfig exStateV) (process exStateV)) = None"
    by (simp add: exFn_def exStateV_def exDefaults_def)
  have path: "''missing.yaml'' \<noteq> []" by simp
  have cause: "Abs exPackages ''missing.yaml'' = Inl (Err ''open /etc/missing.yaml: no such file or directory'') \<or>
           (\<exists>a. Abs exPackages ''missing.yaml'' = Inr a \<and>
              (NewConfigurationFSLoader exPackages a = Inl (Err ''open /etc/missing.yaml: no such file or directory'') \<or>
               (\<exists>ld. NewConfigurationFSLoader exPackages a = Inr ld \<and>
                     Load exPackages ld (New exPackages) = Inl (Err ''open /etc/missing.yaml: no such file or directory''))))"
    by (simp add: exPackages_def)
  from file_errors_name_path_and_cause[where fn = exFn and s = exStateV and pk = exPackages
      and configFilePath = "''missing.yaml''" and cmd = exCommand and allArgs = exArgsMissing
      and cause = "Err ''open /etc/missing.yaml: no such file or directory''", OF fn path cause]
  show ?thesis by simp
qed

text \<open>
  C9. If \<open>options.NewControllerConfiguration\<close> fails with \<open>err\<close>, \<open>newServerCommand\<close>
  logs \<open>err\<close> and exits the process with status 1. It has then made no call that
  registers flags, sets the arguments or parses flags, and it returns no command.
\<close>

theorem construction_failure_exits:
  assumes "newServerCommand (Inl err) allArgs = (cs, out)"
  shows "out = Exit 1 \<and>
         cs = [CallNewControllerFlags, CallNewControllerConfiguration,
               CallLogError err ''Failed to create new controller configuration''] \<and>
         CallAddFlags \<notin> set cs \<and> CallAddConfigFlags \<notin> set cs \<and> CallSetArgs \<notin> set cs \<and>
         CallParseFlags \<notin> set cs \<and>
         (\<forall>cmd. out \<noteq> Return cmd)"
  using assms by (auto simp: newServerCommand_def)

text \<open>
  A failure to build the defaults, at a concrete error.
\<close>

theorem construction_failure_exits_witness:
  "newServerCommand (Inl (Err ''malformed feature gate table'') :: error + (string \<Rightarrow> string))
     [''--v=5'']
   = ([CallNewControllerFlags, CallNewControllerConfiguration,
       CallLogError (Err ''malformed feature gate table'')
         ''Failed to create new controller configuration''],
      Exit 1)"
proof -
  have run: "newServerCommand (Inl (Err ''malformed feature gate table'') :: error + (string \<Rightarrow> string))
      [''--v=5'']
    = (fst (newServerCommand (Inl (Err ''malformed feature gate table'') :: error + (string \<Rightarrow> string))
         [''--v=5'']),
       snd (newServerCommand (Inl (Err ''malformed feature gate table'') :: error + (string \<Rightarrow> string))
         [''--v=5'']))"
    by simp
  from construction_failure_exits[OF run] show ?thesis
    by (simp add: prod_eq_iff)
qed

text \<open>
  C10. Let the first call of the validation callback succeed, \<open>configFilePath\<close> be
  non-empty and the file be loaded into \<open>fromFile\<close>. If \<open>Find\<close> fails, the error is returned
  (wrapped) and the live configuration is left equal to \<open>fromFile\<close>. If \<open>ParseFlags\<close>
  fails, the error is returned (wrapped) and the live configuration is left as the
  failed parse left it, starting from \<open>fromFile\<close>. If the second call of the callback
  fails, its error is returned and the live configuration is left as the second parse
  made it. In no case does the configuration that \<open>loadConfigFromFile\<close> was entered with
  come back.
\<close>

theorem reparse_failure_keeps_overlay:
  assumes "fn (controllerConfig s) (process s) = (None, gA)"
      and "configFilePath \<noteq> []"
      and "Abs pk configFilePath = Inr a"
      and "NewConfigurationFSLoader pk a = Inr ld"
      and "Load pk ld (New pk) = Inr fromFile"
      and "loadConfigFromFile pk cmd allArgs configFilePath fn s = (r, s')"
  shows "(Find cmd allArgs = Inl err \<longrightarrow>
            r = Some (reparseError err) \<and> controllerConfig s' = fromFile) \<and>
         (Find cmd allArgs = Inr args \<and> ParseFlags cmd args fromFile = (Some err, c) \<longrightarrow>
            r = Some (reparseError err) \<and> controllerConfig s' = c) \<and>
         (Find cmd allArgs = Inr args \<and> ParseFlags cmd args fromFile = (None, c) \<and>
          fn c gA = (Some err, gB) \<longrightarrow>
            r = Some err \<and> controllerConfig s' = c)"
  using assms
  by (auto simp: loadConfigFromFile_def callFn_def loadFile_def reparseFlags_def logCalls_def
      DeepCopyInto_def)

text \<open>
  The three failures. In the first the flag had set \<open>leader-elect\<close> to \<open>true\<close> and the
  live configuration ends with the file's \<open>false\<close>; in the second \<open>--v=5\<close> is set again
  and \<open>--leader-elect=true\<close>, which follows the unknown flag, is not; in the third the
  file's empty verbosity makes the second validation fail.
\<close>

theorem reparse_failure_keeps_overlay_witness:
  "controllerConfig exState ''leader-elect'' = ''true'' \<and>
   fst (loadConfigFromFile exPackages exLostCommand exArgs ''file.yaml'' exFn exState)
     = Some (Wrap ''failed to re-parse flags: unknown command'' (Err ''unknown command'')) \<and>
   controllerConfig (snd (loadConfigFromFile exPackages exLostCommand exArgs ''file.yaml'' exFn exState))
     ''leader-elect'' = ''false'' \<and>
   fst (loadConfigFromFile exPackages exCommand exArgsUnknown ''file.yaml'' exFn exStateV)
     = Some (Wrap ''failed to re-parse flags: unknown flag: --bogus'' (Err ''unknown flag: --bogus'')) \<and>
   controllerConfig (snd (loadConfigFromFile exPackages exCommand exArgsUnknown ''file.yaml'' exFn exStateV))
     = exDefaults(''leader-elect'' := ''false'', ''v'' := ''5'') \<and>
   fst (loadConfigFromFile exPackages exCommand exArgsBad ''bad.yaml'' exFn exStateNoFile)
     = Some (Err ''invalid verbosity'') \<and>
   controllerConfig (snd (loadConfigFromFile exPackages exCommand exArgsBad ''bad.yaml'' exFn exStateNoFile))
     = exDefaults(''v'' := [], ''leader-elect'' := ''false'')"
proof -
  have abs: "Abs exPackages p = Inr (''/etc/'' @ p)" for p
    by (simp add: exPackages_def)
  have new: "NewConfigurationFSLoader exPackages p = Inr p" for p
    by (simp add: exPackages_def)
  have load: "Load exPackages (''/etc/'' @ ''file.yaml'') (New exPackages)
              = Inr (exDefaults(''leader-elect'' := ''false'', ''v'' := ''2''))"
    by (simp add: exPackages_def)
  have loadBad: "Load exPackages (''/etc/'' @ ''bad.yaml'') (New exPackages)
              = Inr (exDefaults(''v'' := []))"
    by (simp add: exPackages_def)
  have live: "controllerConfig exState ''leader-elect'' = ''true''"
    by (simp add: exState_def)
  have fn1: "exFn (controllerConfig exState) (process exState) = (None, ''0'')"
    by (simp add: exFn_def exState_def exDefaults_def)
  have fn2: "exFn (controllerConfig exStateV) (process exStateV) = (None, ''5'')"
    by (simp add: exFn_def exStateV_def exDefaults_def)
  have fn3: "exFn (controllerConfig exStateNoFile) (process exStateNoFile) = (None, ''0'')"
    by (simp add: exFn_def exStateNoFile_def exDefaults_def)
  have lost: "Find exLostCommand exArgs = Inl (Err ''unknown command'')"
    by (simp add: exLostCommand_def flagCommand_def)
  have find: "Find exCommand argv = Inr argv" for argv
    by (simp add: exCommand_def flagCommand_def)
  have parse2: "ParseFlags exCommand exArgsUnknown (exDefaults(''leader-elect'' := ''false'', ''v'' := ''2''))
      = (Some (Err ''unknown flag: --bogus''), exDefaults(''leader-elect'' := ''false'', ''v'' := ''5''))"
    by (simp add: ex_defs)
  have parse3: "ParseFlags exCommand exArgsBad (exDefaults(''v'' := []))
      = (None, exDefaults(''v'' := [], ''leader-elect'' := ''false''))"
    by (simp add: ex_defs)
  have fnB: "exFn (exDefaults(''v'' := [], ''leader-elect'' := ''false'')) ''0''
      = (Some (Err ''invalid verbosity''), ''0'')"
    by (simp add: exFn_def)
  have path: "''file.yaml'' \<noteq> []" "''bad.yaml'' \<noteq> []" by simp_all
  note thm1 = reparse_failure_keeps_overlay[where fn = exFn and s = exState and pk = exPackages
      and configFilePath = "''file.yaml''" and cmd = exLostCommand and allArgs = exArgs
      and err = "Err ''unknown command''"
      and r = "fst (loadConfigFromFile exPackages exLostCommand exArgs ''file.yaml'' exFn exState)"
      and s' = "snd (loadConfigFromFile exPackages exLostCommand exArgs ''file.yaml'' exFn exState)",
      OF fn1 path(1) abs new load surjective_pairing]
  note thm2 = reparse_failure_keeps_overlay[where fn = exFn and s = exStateV and pk = exPackages
      and configFilePath = "''file.yaml''" and cmd = exCommand and allArgs = exArgsUnknown
      and args = exArgsUnknown and err = "Err ''unknown flag: --bogus''"
      and c = "exDefaults(''leader-elect'' := ''false'', ''v'' := ''5'')"
      and r = "fst (loadConfigFromFile exPackages exCommand exArgsUnknown ''file.yaml'' exFn exStateV)"
      and s' = "snd (loadConfigFromFile exPackages exCommand exArgsUnknown ''file.yaml'' exFn exStateV)",
      OF fn2 path(1) abs new load surjective_pairing]
  note thm3 = reparse_failure_keeps_overlay[where fn = exFn and s = exStateNoFile and pk = exPackages
      and configFilePath = "''bad.yaml''" and cmd = exCommand and allArgs = exArgsBad
      and args = exArgsBad and err = "Err ''invalid verbosity''" and gB = "''0''"
      and c = "exDefaults(''v'' := [], ''leader-elect'' := ''false'')"
      and r = "fst (loadConfigFromFile exPackages exCommand exArgsBad ''bad.yaml'' exFn exStateNoFile)"
      and s' = "snd (loadConfigFromFile exPackages exCommand exArgsBad ''bad.yaml'' exFn exStateNoFile)",
      OF fn3 path(2) abs new loadBad surjective_pairing]
  from thm1 lost have one:
    "fst (loadConfigFromFile exPackages exLostCommand exArgs ''file.yaml'' exFn exState)
       = Some (Wrap ''failed to re-parse flags: unknown command'' (Err ''unknown command''))"
    "controllerConfig (snd (loadConfigFromFile exPackages exLostCommand exArgs ''file.yaml'' exFn exState))
       ''leader-elect'' = ''false''"
    by (simp_all add: reparseError_def)
  from thm2 find parse2 have two:
    "fst (loadConfigFromFile exPackages exCommand exArgsUnknown ''file.yaml'' exFn exStateV)
       = Some (Wrap ''failed to re-parse flags: unknown flag: --bogus'' (Err ''unknown flag: --bogus''))"
    "controllerConfig (snd (loadConfigFromFile exPackages exCommand exArgsUnknown ''file.yaml'' exFn exStateV))
       = exDefaults(''leader-elect'' := ''false'', ''v'' := ''5'')"
    by (simp_all add: reparseError_def)
  from thm3 find parse3 fnB have three:
    "fst (loadConfigFromFile exPackages exCommand exArgsBad ''bad.yaml'' exFn exStateNoFile)
       = Some (Err ''invalid verbosity'')"
    "controllerConfig (snd (loadConfigFromFile exPackages exCommand exArgsBad ''bad.yaml'' exFn exStateNoFile))
       = exDefaults(''v'' := [], ''leader-elect'' := ''false'')"
    by simp_all
  from live one two three show ?thesis by simp
qed

end
